theory Spec2Isabelle
  imports Main
begin

section \<open>Source trees\<close>

text \<open>
  The input of \<^verbatim>\<open>convertRawJavaScriptAst\<close> is a syntax tree in the ESTree convention: every
  node is an object with a \<^verbatim>\<open>type\<close> tag and kind-specific children. One constructor per
  kind the \<^verbatim>\<open>switch\<close> of \<^verbatim>\<open>convert\<close> has a case for, with the fields that case reads, and
  \<open>Other t\<close> for a node of any other kind (\<open>t\<close> is its tag; such a node has no
  \<^verbatim>\<open>name\<close>, \<^verbatim>\<open>consequent\<close> or \<^verbatim>\<open>alternate\<close> field). A child that ESTree allows to be \<^verbatim>\<open>null\<close>
  is a \<open>node option\<close>. Arrays hold nodes (no holes).
\<close>

datatype literal_value =
    LString string
  | LNumber int
  | LBoolean bool
  | LNull
  | LRegExp string string  \<comment> \<open>\<^verbatim>\<open>new RegExp(pattern, flags)\<close>\<close>

datatype node =
    ArrayExpression "node list"  \<comment> \<open>elements\<close>
  | AssignmentExpression string node node  \<comment> \<open>operator, left, right\<close>
  | BinaryExpression string node node  \<comment> \<open>operator, left, right\<close>
  | BlockStatement "node list"  \<comment> \<open>body\<close>
  | CallExpression node "node list"  \<comment> \<open>callee, arguments\<close>
  | ConditionalExpression node node node  \<comment> \<open>test, consequent, alternate\<close>
  | ExpressionStatement node  \<comment> \<open>expression\<close>
  | FunctionDeclaration "node option" "node list" node  \<comment> \<open>id, params, body\<close>
  | FunctionExpression "node option" "node list" node  \<comment> \<open>id, params, body\<close>
  | Identifier string  \<comment> \<open>name\<close>
  | Literal literal_value "(string \<times> string) option"  \<comment> \<open>value, regex (pattern, flags)\<close>
  | TaggedTemplateExpression node "string list" "node list"
      \<comment> \<open>tag, and the two fields of quasi, which is always a template literal:
          the cooked strings of quasi.quasis, and quasi.expressions\<close>
  | TemplateLiteral "string list" "node list"  \<comment> \<open>cooked strings of quasis, expressions\<close>
  | LogicalExpression string node node  \<comment> \<open>operator, left, right\<close>
  | MemberExpression node node bool  \<comment> \<open>object, property, computed\<close>
  | NewExpression node "node list"  \<comment> \<open>callee, arguments\<close>
  | Program "node list"  \<comment> \<open>body\<close>
  | ObjectExpression "node list"  \<comment> \<open>properties\<close>
  | Property string bool node node  \<comment> \<open>kind, computed === true, key, value\<close>
  | ReturnStatement "node option"  \<comment> \<open>argument\<close>
  | ThisExpression
  | UnaryExpression string bool node  \<comment> \<open>operator, prefix, argument\<close>
  | UpdateExpression string bool node  \<comment> \<open>operator, prefix, argument\<close>
  | VariableDeclarator node "node option"  \<comment> \<open>id, init\<close>
  | VariableDeclaration string "node list"  \<comment> \<open>kind, declarations\<close>
  | IfStatement node node "node option"  \<comment> \<open>test, consequent, alternate\<close>
  | ForStatement "node option" "node option" "node option" node  \<comment> \<open>init, test, update, body\<close>
  | WhileStatement node node  \<comment> \<open>test, body\<close>
  | Other string  \<comment> \<open>a kind without a case: its tag\<close>

text \<open>The \<^verbatim>\<open>type\<close> tag of a node, and the tags the \<^verbatim>\<open>switch\<close> has a case for.\<close>

fun type_of :: "node \<Rightarrow> string" where
  "type_of (ArrayExpression _) = ''ArrayExpression''"
| "type_of (AssignmentExpression _ _ _) = ''AssignmentExpression''"
| "type_of (BinaryExpression _ _ _) = ''BinaryExpression''"
| "type_of (BlockStatement _) = ''BlockStatement''"
| "type_of (CallExpression _ _) = ''CallExpression''"
| "type_of (ConditionalExpression _ _ _) = ''ConditionalExpression''"
| "type_of (ExpressionStatement _) = ''ExpressionStatement''"
| "type_of (FunctionDeclaration _ _ _) = ''FunctionDeclaration''"
| "type_of (FunctionExpression _ _ _) = ''FunctionExpression''"
| "type_of (Identifier _) = ''Identifier''"
| "type_of (Literal _ _) = ''Literal''"
| "type_of (TaggedTemplateExpression _ _ _) = ''TaggedTemplateExpression''"
| "type_of (TemplateLiteral _ _) = ''TemplateLiteral''"
| "type_of (LogicalExpression _ _ _) = ''LogicalExpression''"
| "type_of (MemberExpression _ _ _) = ''MemberExpression''"
| "type_of (NewExpression _ _) = ''NewExpression''"
| "type_of (Program _) = ''Program''"
| "type_of (ObjectExpression _) = ''ObjectExpression''"
| "type_of (Property _ _ _ _) = ''Property''"
| "type_of (ReturnStatement _) = ''ReturnStatement''"
| "type_of ThisExpression = ''ThisExpression''"
| "type_of (UnaryExpression _ _ _) = ''UnaryExpression''"
| "type_of (UpdateExpression _ _ _) = ''UpdateExpression''"
| "type_of (VariableDeclarator _ _) = ''VariableDeclarator''"
| "type_of (VariableDeclaration _ _) = ''VariableDeclaration''"
| "type_of (IfStatement _ _ _) = ''IfStatement''"
| "type_of (ForStatement _ _ _ _) = ''ForStatement''"
| "type_of (WhileStatement _ _) = ''WhileStatement''"
| "type_of (Other t) = t"

definition supported_kinds :: "string list" where
  "supported_kinds =
    [''ArrayExpression'', ''AssignmentExpression'', ''BinaryExpression'', ''BlockStatement'',
     ''CallExpression'', ''ConditionalExpression'', ''ExpressionStatement'',
     ''FunctionDeclaration'', ''FunctionExpression'', ''Identifier'', ''Literal'',
     ''TaggedTemplateExpression'', ''TemplateLiteral'', ''LogicalExpression'',
     ''MemberExpression'', ''NewExpression'', ''Program'', ''ObjectExpression'', ''Property'',
     ''ReturnStatement'', ''ThisExpression'', ''UnaryExpression'', ''UpdateExpression'',
     ''VariableDeclarator'', ''VariableDeclaration'', ''IfStatement'', ''ForStatement'',
     ''WhileStatement'']"

text \<open>\<^verbatim>\<open>node.tag.name\<close>: only an identifier has a \<^verbatim>\<open>name\<close> field; elsewhere the read
  gives \<^verbatim>\<open>undefined\<close>.\<close>

fun name_field :: "node \<Rightarrow> string option" where
  "name_field (Identifier name) = Some name"
| "name_field _ = None"

section \<open>The builder and its IR\<close>

text \<open>
  Modelled from the spec: the Builder is injected by the caller and its code is not part of
  the converter. The spec describes it as one construction operation per IR kind, each taking
  already-converted children and flags and returning an IR node. The model is the free
  builder: one constructor per operation, named \<open>b_\<close> and the method \<^verbatim>\<open>convert\<close> calls, with
  that call's arguments in order. \<open>b_containerNode kids\<close> is a container and the children appended
  to it so far; the last argument of \<open>b_templateLiteral\<close> is the \<^verbatim>\<open>nonstandard\<close> flag, which the
  builder leaves unset. \<open>Seq\<close> is a JavaScript array of converted values, which \<^verbatim>\<open>convert\<close>
  returns for an array and for a block. Every IR value is an object, hence truthy.
\<close>

datatype ir =
    Seq "ir list"
  | b_arrayExpression "ir list"
  | b_assignment ir ir string
  | b_binaryExpression ir string ir
  | b_functionCall ir "ir list"
  | b_conditionalExpression ir ir ir
  | b_functionDeclaration "ir option" "ir list" ir
  | b_identifier string
  | b_literal literal_value
  | b_templateLiteral "string list" "ir list" bool
  | b_logicalExpression ir string ir
  | b_memberExpression ir ir bool
  | b_newExpression ir "ir list"
  | b_containerNode "ir list"
  | b_objectExpression "ir list"
  | b_property ir ir bool
  | b_returnStatement "ir option"
  | b_thisExpression
  | b_unaryExpression ir string bool
  | b_updateExpression ir string bool
  | b_variableDeclarator ir "ir option"
  | b_vars "ir list" string
  | b_ifStatement ir ir
  | b_elseIfStatement ir ir
  | b_elseStatement ir
  | b_forStatement ir ir ir ir
  | b_whileStatement ir ir

text \<open>\<^verbatim>\<open>quasi.nonstandard = true\<close>, on the node \<^verbatim>\<open>builder.templateLiteral\<close> returned (the only
  value the conversion of a template literal returns).\<close>

fun set_nonstandard :: "ir \<Rightarrow> ir" where
  "set_nonstandard (b_templateLiteral quasis expressions _) =
     b_templateLiteral quasis expressions True"
| "set_nonstandard v = v"

text \<open>The key of a property: \<^verbatim>\<open>if (!computed && key.type === "Identifier") key =
  builder.literal(key.name)\<close>. The identifier-shaped IR nodes are those of
  \<^verbatim>\<open>builder.identifier\<close>.\<close>

fun property_key :: "bool \<Rightarrow> ir \<Rightarrow> ir" where
  "property_key False (b_identifier name) = b_literal (LString name)"
| "property_key _ key = key"

section \<open>Effects: runtime errors, calls and stores\<close>

text \<open>
  A call of \<^verbatim>\<open>convert\<close> either returns a value (\<^verbatim>\<open>null\<close> is \<open>None\<close>) or raises: the
  \<^verbatim>\<open>TypeError\<close> of reading \<^verbatim>\<open>.type\<close> of \<^verbatim>\<open>null\<close>, or the \<^verbatim>\<open>SyntaxError\<close> of
  \<^verbatim>\<open>new RegExp(pattern, flags)\<close> on a pattern or flags the engine does not take. Beside its
  completion a run yields the list of its events in order: \<open>Visit p\<close>, \<^verbatim>\<open>convert\<close> was called
  on the child at position \<open>p\<close> of the input, and \<open>Store p i v\<close>, the assignment
  \<^verbatim>\<open>nodes[i] = converted\<close> wrote \<open>v\<close> into slot \<open>i\<close> of the input array at position \<open>p\<close>. A
  position is the path of field names and array indices from the root of the input.
\<close>

datatype step = Child string | Index nat

datatype event = Visit "step list" | Store "step list" nat ir

datatype 'a completion = TypeError | SyntaxError | Returns 'a

type_synonym 'a run = "'a completion \<times> event list"

definition ret :: "'a \<Rightarrow> 'a run" where
  "ret v = (Returns v, [])"

definition after :: "event \<Rightarrow> 'a run \<Rightarrow> 'a run" where
  "after e m = (fst m, e # snd m)"

fun andThen :: "'a run \<Rightarrow> ('a \<Rightarrow> 'b run) \<Rightarrow> 'b run" where
  "andThen (TypeError, es) f = (TypeError, es)"
| "andThen (SyntaxError, es) f = (SyntaxError, es)"
| "andThen (Returns v, es) f = (fst (f v), es @ snd (f v))"

text \<open>\<^verbatim>\<open>let x = convert(child); if (!x) return null; ...\<close>\<close>

definition require :: "'a option run \<Rightarrow> ('a \<Rightarrow> 'b option run) \<Rightarrow> 'b option run" where
  "require m f = andThen m (\<lambda>x. case x of None \<Rightarrow> ret None | Some v \<Rightarrow> f v)"

text \<open>
  The \<^verbatim>\<open>RegExp\<close> constructor belongs to the JavaScript engine, not to the converter, so it is
  a parameter of the model: \<open>regexp pattern flags\<close> says that \<^verbatim>\<open>new RegExp(pattern, flags)\<close>
  returns; otherwise it throws a \<^verbatim>\<open>SyntaxError\<close>. A parser hands over a regex literal with its
  pattern and flags also when the engine it runs on does not take the flags.
\<close>

type_synonym engine = "string \<Rightarrow> string \<Rightarrow> bool"

text \<open>An engine for closed instances: it takes every pattern, and the flags of ECMAScript 2018
  (each of \<^verbatim>\<open>gimsuy\<close> at most once).\<close>

definition es2018 :: engine where
  "es2018 pattern flags \<longleftrightarrow> distinct flags \<and> list_all (\<lambda>c. c \<in> set ''gimsuy'') flags"

section \<open>The converter\<close>

text \<open>
  \<^verbatim>\<open>convert\<close>, case by case in the order of the source. The first argument is the engine's
  \<^verbatim>\<open>RegExp\<close>, the second the position of the value \<^verbatim>\<open>convert\<close> is called on. \<open>convert_child\<close> is \<^verbatim>\<open>convert\<close> called on a child that
  may be \<^verbatim>\<open>null\<close>: \<^verbatim>\<open>Array.isArray(null)\<close> is false and \<^verbatim>\<open>node.type\<close> raises.
  \<open>convert_array regexp p done rest\<close> is the loop of the array branch at index \<open>length done\<close>: the
  array then holds the converted values \<open>done\<close> in its first slots and the nodes \<open>rest\<close>
  after them. \<open>program_body\<close> is the \<^verbatim>\<open>for ... of\<close> loop of the Program case and
  \<open>else_chain\<close> the \<^verbatim>\<open>do ... while\<close> loop of the IfStatement case, both with the children of
  the container so far. In \<open>else_chain\<close>, \<^verbatim>\<open>alternate.consequent\<close> is truthy for the two kinds
  that have the field, and \<^verbatim>\<open>alternate.alternate\<close> is \<^verbatim>\<open>undefined\<close> for every kind without it.
\<close>

text \<open>\<^verbatim>\<open>alternate.consequent\<close> is truthy on an if statement and on a conditional
  expression, the two kinds with the field.\<close>

fun has_consequent :: "node \<Rightarrow> bool" where
  "has_consequent (IfStatement _ _ _) = True"
| "has_consequent (ConditionalExpression _ _ _) = True"
| "has_consequent _ = False"

text \<open>Every call is on a strict part of the node, except that the tagged template converts
  its quasi, rebuilt from its own fields, and that \<open>else_chain\<close> converts the node it is at.\<close>

fun weight :: "node \<Rightarrow> nat" where
  "weight (TaggedTemplateExpression tag quasis expressions) =
     3 * size (TaggedTemplateExpression tag quasis expressions) + 1"
| "weight n = 3 * size n"

lemma weight_less: "3 * size n + 1 < k \<Longrightarrow> weight n < k"
  by (cases n) simp_all

function convert :: "engine \<Rightarrow> step list \<Rightarrow> node \<Rightarrow> ir option run"
  and convert_child :: "engine \<Rightarrow> step list \<Rightarrow> node option \<Rightarrow> ir option run"
  and convert_array :: "engine \<Rightarrow> step list \<Rightarrow> ir list \<Rightarrow> node list \<Rightarrow> ir list option run"
  and program_body :: "engine \<Rightarrow> step list \<Rightarrow> ir list \<Rightarrow> node list \<Rightarrow> ir option run"
  and else_chain :: "engine \<Rightarrow> step list \<Rightarrow> ir list \<Rightarrow> node \<Rightarrow> ir option run"
where
  "convert regexp p (ArrayExpression elements) = after (Visit p)
     (require (convert_array regexp (p @ [Child ''elements'']) [] elements) (\<lambda>elements'.
      ret (Some (b_arrayExpression elements'))))"
| "convert regexp p (AssignmentExpression operator left right) = after (Visit p)
     (require (convert regexp (p @ [Child ''left'']) left) (\<lambda>left'.
      require (convert regexp (p @ [Child ''right'']) right) (\<lambda>right'.
      ret (Some (b_assignment left' right' operator)))))"
| "convert regexp p (BinaryExpression operator left right) = after (Visit p)
     (require (convert regexp (p @ [Child ''left'']) left) (\<lambda>left'.
      require (convert regexp (p @ [Child ''right'']) right) (\<lambda>right'.
      ret (Some (b_binaryExpression left' operator right')))))"
| "convert regexp p (BlockStatement body) = after (Visit p)
     (require (convert_array regexp (p @ [Child ''body'']) [] body) (\<lambda>body'.
      ret (Some (Seq body'))))"
| "convert regexp p (CallExpression callee arguments) = after (Visit p)
     (require (convert regexp (p @ [Child ''callee'']) callee) (\<lambda>callee'.
      require (convert_array regexp (p @ [Child ''arguments'']) [] arguments) (\<lambda>args.
      ret (Some (b_functionCall callee' args)))))"
| "convert regexp p (ConditionalExpression test consequent alternate) = after (Visit p)
     (require (convert regexp (p @ [Child ''test'']) test) (\<lambda>test'.
      require (convert regexp (p @ [Child ''consequent'']) consequent) (\<lambda>consequent'.
      require (convert regexp (p @ [Child ''alternate'']) alternate) (\<lambda>alternate'.
      ret (Some (b_conditionalExpression test' consequent' alternate'))))))"
| "convert regexp p (ExpressionStatement expression) = after (Visit p)
     (convert regexp (p @ [Child ''expression'']) expression)"
| "convert regexp p (FunctionDeclaration ident params body) = after (Visit p)
     (case ident of
        None \<Rightarrow>
          require (convert_array regexp (p @ [Child ''params'']) [] params) (\<lambda>params'.
          require (convert regexp (p @ [Child ''body'']) body) (\<lambda>body'.
          ret (Some (b_functionDeclaration None params' body'))))
      | Some i \<Rightarrow>
          require (convert regexp (p @ [Child ''id'']) i) (\<lambda>name.
          require (convert_array regexp (p @ [Child ''params'']) [] params) (\<lambda>params'.
          require (convert regexp (p @ [Child ''body'']) body) (\<lambda>body'.
          ret (Some (b_functionDeclaration (Some name) params' body'))))))"
| "convert regexp p (FunctionExpression ident params body) = after (Visit p)
     (case ident of
        None \<Rightarrow>
          require (convert_array regexp (p @ [Child ''params'']) [] params) (\<lambda>params'.
          require (convert regexp (p @ [Child ''body'']) body) (\<lambda>body'.
          ret (Some (b_functionDeclaration None params' body'))))
      | Some i \<Rightarrow>
          require (convert regexp (p @ [Child ''id'']) i) (\<lambda>name.
          require (convert_array regexp (p @ [Child ''params'']) [] params) (\<lambda>params'.
          require (convert regexp (p @ [Child ''body'']) body) (\<lambda>body'.
          ret (Some (b_functionDeclaration (Some name) params' body'))))))"
| "convert regexp p (Identifier name) = after (Visit p)
     (ret (Some (b_identifier name)))"
| "convert regexp p (Literal val regex) = after (Visit p)
     (case regex of
        Some (pattern, flags) \<Rightarrow>
          if regexp pattern flags then ret (Some (b_literal (LRegExp pattern flags)))
          else (SyntaxError, [])
      | None \<Rightarrow> ret (Some (b_literal val)))"
| "convert regexp p (TaggedTemplateExpression tag quasis expressions) = after (Visit p)
     (if name_field tag = Some ''$nonstandard''
      then andThen (convert regexp (p @ [Child ''quasi'']) (TemplateLiteral quasis expressions)) (\<lambda>quasi.
        case quasi of
          Some quasi' \<Rightarrow> ret (Some (set_nonstandard quasi'))
        | None \<Rightarrow> ret None)
      else ret None)"
| "convert regexp p (TemplateLiteral quasis expressions) = after (Visit p)
     (andThen (convert_array regexp (p @ [Child ''expressions'']) [] expressions) (\<lambda>expressions'.
        case expressions' of
          Some es \<Rightarrow> ret (Some (b_templateLiteral quasis es False))
        | None \<Rightarrow> ret None))"
| "convert regexp p (LogicalExpression operator left right) = after (Visit p)
     (require (convert regexp (p @ [Child ''left'']) left) (\<lambda>left'.
      require (convert regexp (p @ [Child ''right'']) right) (\<lambda>right'.
      ret (Some (b_logicalExpression left' operator right')))))"
| "convert regexp p (MemberExpression object property computed) = after (Visit p)
     (require (convert regexp (p @ [Child ''object'']) object) (\<lambda>object'.
      require (convert regexp (p @ [Child ''property'']) property) (\<lambda>property'.
      ret (Some (b_memberExpression object' property' computed)))))"
| "convert regexp p (NewExpression callee arguments) = after (Visit p)
     (require (convert regexp (p @ [Child ''callee'']) callee) (\<lambda>callee'.
      require (convert_array regexp (p @ [Child ''arguments'']) [] arguments) (\<lambda>args.
      ret (Some (b_newExpression callee' args)))))"
| "convert regexp p (Program body) = after (Visit p)
     (case body of
        [child] \<Rightarrow> convert regexp (p @ [Child ''body'', Index 0]) child
      | _ \<Rightarrow> program_body regexp (p @ [Child ''body'']) [] body)"
| "convert regexp p (ObjectExpression properties) = after (Visit p)
     (require (convert_array regexp (p @ [Child ''properties'']) [] properties) (\<lambda>properties'.
      ret (Some (b_objectExpression properties'))))"
| "convert regexp p (Property kind computed key val) = after (Visit p)
     (require (convert regexp (p @ [Child ''key'']) key) (\<lambda>key'.
      if kind = ''get'' \<or> kind = ''set'' then ret None
      else require (convert regexp (p @ [Child ''value'']) val) (\<lambda>val'.
        ret (Some (b_property (property_key computed key') val' computed)))))"
| "convert regexp p (ReturnStatement argument) = after (Visit p)
     (case argument of
        None \<Rightarrow> ret (Some (b_returnStatement None))
      | Some a \<Rightarrow>
          require (convert regexp (p @ [Child ''argument'']) a) (\<lambda>argument'.
          ret (Some (b_returnStatement (Some argument')))))"
| "convert regexp p ThisExpression = after (Visit p)
     (ret (Some b_thisExpression))"
| "convert regexp p (UnaryExpression operator prefix argument) = after (Visit p)
     (require (convert regexp (p @ [Child ''argument'']) argument) (\<lambda>argument'.
      ret (Some (b_unaryExpression argument' operator prefix))))"
| "convert regexp p (UpdateExpression operator prefix argument) = after (Visit p)
     (require (convert regexp (p @ [Child ''argument'']) argument) (\<lambda>argument'.
      ret (Some (b_updateExpression argument' operator prefix))))"
| "convert regexp p (VariableDeclarator ident init) = after (Visit p)
     (require (convert regexp (p @ [Child ''id'']) ident) (\<lambda>ident'.
      case init of
        None \<Rightarrow> ret (Some (b_variableDeclarator ident' None))
      | Some i \<Rightarrow>
          require (convert regexp (p @ [Child ''init'']) i) (\<lambda>init'.
          ret (Some (b_variableDeclarator ident' (Some init'))))))"
| "convert regexp p (VariableDeclaration kind declarations) = after (Visit p)
     (require (convert_array regexp (p @ [Child ''declarations'']) [] declarations) (\<lambda>declarations'.
      ret (Some (b_vars declarations' kind))))"
| "convert regexp p (IfStatement test consequent alternate) = after (Visit p)
     (andThen (convert regexp (p @ [Child ''test'']) test) (\<lambda>ifNodeTest.
      andThen (convert regexp (p @ [Child ''consequent'']) consequent) (\<lambda>ifNodeBody.
        case (ifNodeTest, ifNodeBody) of
          (Some t, Some b) \<Rightarrow>
            (case alternate of
               None \<Rightarrow> ret (Some (b_ifStatement t b))
             | Some a \<Rightarrow> else_chain regexp (p @ [Child ''alternate'']) [b_ifStatement t b] a)
        | _ \<Rightarrow> ret None)))"
| "convert regexp p (ForStatement init test update body) = after (Visit p)
     (andThen (convert_child regexp (p @ [Child ''init'']) init) (\<lambda>forNodeInit.
      andThen (convert_child regexp (p @ [Child ''test'']) test) (\<lambda>forNodeTest.
      andThen (convert_child regexp (p @ [Child ''update'']) update) (\<lambda>forNodeUpdate.
      andThen (convert regexp (p @ [Child ''body'']) body) (\<lambda>forNodeBody.
        case (forNodeInit, forNodeTest, forNodeUpdate, forNodeBody) of
          (Some i, Some t, Some u, Some b) \<Rightarrow> ret (Some (b_forStatement i t u b))
        | _ \<Rightarrow> ret None)))))"
| "convert regexp p (WhileStatement test body) = after (Visit p)
     (andThen (convert regexp (p @ [Child ''test'']) test) (\<lambda>whileNodeTest.
      andThen (convert regexp (p @ [Child ''body'']) body) (\<lambda>whileNodeBody.
        case (whileNodeTest, whileNodeBody) of
          (Some t, Some b) \<Rightarrow> ret (Some (b_whileStatement t b))
        | _ \<Rightarrow> ret None)))"
| "convert regexp p (Other t) = after (Visit p)
     (ret None)"
| "convert_child regexp p None = after (Visit p) (TypeError, [])"
| "convert_child regexp p (Some n) = convert regexp p n"
| "convert_array regexp p done [] = ret (Some done)"
| "convert_array regexp p done (n # rest) =
     andThen (convert regexp (p @ [Index (length done)]) n) (\<lambda>converted.
       case converted of
         None \<Rightarrow> ret None
       | Some v \<Rightarrow> after (Store p (length done) v) (convert_array regexp p (done @ [v]) rest))"
| "program_body regexp p kids [] = ret (Some (b_containerNode kids))"
| "program_body regexp p kids (child # rest) =
     andThen (convert regexp (p @ [Index (length kids)]) child) (\<lambda>convertedChild.
       case convertedChild of
         Some v \<Rightarrow> program_body regexp p (kids @ [v]) rest
       | None \<Rightarrow> ret None)"
| "else_chain regexp p kids alternate =
     (case alternate of
        IfStatement test consequent next \<Rightarrow>
          andThen (convert regexp (p @ [Child ''test'']) test) (\<lambda>elseIfNodeTest.
          andThen (convert regexp (p @ [Child ''consequent'']) consequent) (\<lambda>elseIfNodeBody.
            case (elseIfNodeTest, elseIfNodeBody) of
              (Some t, Some b) \<Rightarrow>
                (case next of
                   Some a \<Rightarrow>
                     else_chain regexp (p @ [Child ''alternate'']) (kids @ [b_elseIfStatement t b]) a
                 | None \<Rightarrow> ret (Some (b_containerNode (kids @ [b_elseIfStatement t b]))))
            | _ \<Rightarrow> ret None))
      | ConditionalExpression test consequent next \<Rightarrow>
          andThen (convert regexp (p @ [Child ''test'']) test) (\<lambda>elseIfNodeTest.
          andThen (convert regexp (p @ [Child ''consequent'']) consequent) (\<lambda>elseIfNodeBody.
            case (elseIfNodeTest, elseIfNodeBody) of
              (Some t, Some b) \<Rightarrow>
                else_chain regexp (p @ [Child ''alternate'']) (kids @ [b_elseIfStatement t b]) next
            | _ \<Rightarrow> ret None))
      | _ \<Rightarrow>
          require (convert regexp p alternate) (\<lambda>elseNodeBody.
          ret (Some (b_containerNode (kids @ [b_elseStatement elseNodeBody])))))"

  by pat_completeness auto

termination
  apply (relation "measure (\<lambda>x. case x of
      Inl (Inl (regexp, p, n)) \<Rightarrow> weight n
    | Inl (Inr (regexp, p, c)) \<Rightarrow> 3 * size_option size c
    | Inr (Inl (regexp, p, done, ns)) \<Rightarrow> 3 * size_list size ns
    | Inr (Inr (Inl (regexp, p, kids, ns))) \<Rightarrow> 3 * size_list size ns
    | Inr (Inr (Inr (regexp, p, kids, n))) \<Rightarrow> 3 * size n + 2)")
  apply (simp_all add: weight_less)
  done

declare else_chain.simps [simp del]



text \<open>The array an event is about (for a call, the value it is called on), and the runs
  all of whose events lie at or below a position.\<close>

fun position :: "event \<Rightarrow> step list" where
  "position (Visit p) = p"
| "position (Store p i v) = p"

definition within :: "step list \<Rightarrow> 'a run \<Rightarrow> bool" where
  "within p m \<longleftrightarrow> (\<forall>e \<in> set (snd m). \<exists>q. position e = p @ q)"


text \<open>
  The parts of an input: a node, an array of nodes, or nothing (an absent child, or a path that
  leads nowhere). \<open>field n f\<close> is the child of the node \<open>n\<close> in its field \<open>f\<close>, by the fields
  listed with the constructors of \<open>node\<close>, and \<open>part_at v q\<close> the part of \<open>v\<close> at the position
  \<open>q\<close>.
\<close>

datatype part = Node node | Array "node list" | Absent

fun present :: "node option \<Rightarrow> part" where
  "present None = Absent"
| "present (Some n) = Node n"

fun field :: "node \<Rightarrow> string \<Rightarrow> part" where
  "field (ArrayExpression elements) f = (if f = ''elements'' then Array elements else Absent)"
| "field (AssignmentExpression operator left right) f =
     (if f = ''left'' then Node left else if f = ''right'' then Node right else Absent)"
| "field (BinaryExpression operator left right) f =
     (if f = ''left'' then Node left else if f = ''right'' then Node right else Absent)"
| "field (BlockStatement body) f = (if f = ''body'' then Array body else Absent)"
| "field (CallExpression callee arguments) f =
     (if f = ''callee'' then Node callee else if f = ''arguments'' then Array arguments
      else Absent)"
| "field (ConditionalExpression test consequent alternate) f =
     (if f = ''test'' then Node test else if f = ''consequent'' then Node consequent
      else if f = ''alternate'' then Node alternate else Absent)"
| "field (ExpressionStatement expression) f =
     (if f = ''expression'' then Node expression else Absent)"
| "field (FunctionDeclaration ident params body) f =
     (if f = ''id'' then present ident else if f = ''params'' then Array params
      else if f = ''body'' then Node body else Absent)"
| "field (FunctionExpression ident params body) f =
     (if f = ''id'' then present ident else if f = ''params'' then Array params
      else if f = ''body'' then Node body else Absent)"
| "field (Identifier name) f = Absent"
| "field (Literal val regex) f = Absent"
| "field (TaggedTemplateExpression tag quasis expressions) f =
     (if f = ''tag'' then Node tag
      else if f = ''quasi'' then Node (TemplateLiteral quasis expressions) else Absent)"
| "field (TemplateLiteral quasis expressions) f =
     (if f = ''expressions'' then Array expressions else Absent)"
| "field (LogicalExpression operator left right) f =
     (if f = ''left'' then Node left else if f = ''right'' then Node right else Absent)"
| "field (MemberExpression object property computed) f =
     (if f = ''object'' then Node object else if f = ''property'' then Node property
      else Absent)"
| "field (NewExpression callee arguments) f =
     (if f = ''callee'' then Node callee else if f = ''arguments'' then Array arguments
      else Absent)"
| "field (Program body) f = (if f = ''body'' then Array body else Absent)"
| "field (ObjectExpression properties) f =
     (if f = ''properties'' then Array properties else Absent)"
| "field (Property kind computed key val) f =
     (if f = ''key'' then Node key else if f = ''value'' then Node val else Absent)"
| "field (ReturnStatement argument) f = (if f = ''argument'' then present argument else Absent)"
| "field ThisExpression f = Absent"
| "field (UnaryExpression operator prefix argument) f =
     (if f = ''argument'' then Node argument else Absent)"
| "field (UpdateExpression operator prefix argument) f =
     (if f = ''argument'' then Node argument else Absent)"
| "field (VariableDeclarator ident init) f =
     (if f = ''id'' then Node ident else if f = ''init'' then present init else Absent)"
| "field (VariableDeclaration kind declarations) f =
     (if f = ''declarations'' then Array declarations else Absent)"
| "field (IfStatement test consequent alternate) f =
     (if f = ''test'' then Node test else if f = ''consequent'' then Node consequent
      else if f = ''alternate'' then present alternate else Absent)"
| "field (ForStatement init test update body) f =
     (if f = ''init'' then present init else if f = ''test'' then present test
      else if f = ''update'' then present update else if f = ''body'' then Node body
      else Absent)"
| "field (WhileStatement test body) f =
     (if f = ''test'' then Node test else if f = ''body'' then Node body else Absent)"
| "field (Other t) f = Absent"

fun part_at :: "part \<Rightarrow> step list \<Rightarrow> part" where
  "part_at v [] = v"
| "part_at (Node n) (Child f # q) = part_at (field n f) q"
| "part_at (Array ns) (Index i # q) = (if i < length ns then part_at (Node (ns ! i)) q else Absent)"
| "part_at v (s # q) = Absent"




section \<open>The loop of the else chain, by the kind of the link\<close>

lemma else_chain_IfStatement [simp]:
  "else_chain regexp p kids (IfStatement test consequent next) =
     andThen (convert regexp (p @ [Child ''test'']) test) (\<lambda>elseIfNodeTest.
     andThen (convert regexp (p @ [Child ''consequent'']) consequent) (\<lambda>elseIfNodeBody.
       case (elseIfNodeTest, elseIfNodeBody) of
         (Some t, Some b) \<Rightarrow>
           (case next of
              Some a \<Rightarrow>
                else_chain regexp (p @ [Child ''alternate'']) (kids @ [b_elseIfStatement t b]) a
            | None \<Rightarrow> ret (Some (b_containerNode (kids @ [b_elseIfStatement t b]))))
       | _ \<Rightarrow> ret None))"
  by (subst else_chain.simps) (simp only: node.case)

lemma else_chain_ConditionalExpression [simp]:
  "else_chain regexp p kids (ConditionalExpression test consequent next) =
     andThen (convert regexp (p @ [Child ''test'']) test) (\<lambda>elseIfNodeTest.
     andThen (convert regexp (p @ [Child ''consequent'']) consequent) (\<lambda>elseIfNodeBody.
       case (elseIfNodeTest, elseIfNodeBody) of
         (Some t, Some b) \<Rightarrow>
           else_chain regexp (p @ [Child ''alternate'']) (kids @ [b_elseIfStatement t b]) next
       | _ \<Rightarrow> ret None))"
  by (subst else_chain.simps) (simp only: node.case)

lemma else_chain_else [simp]:
  "\<not> has_consequent alternate \<Longrightarrow>
   else_chain regexp p kids alternate =
     require (convert regexp p alternate) (\<lambda>elseNodeBody.
     ret (Some (b_containerNode (kids @ [b_elseStatement elseNodeBody]))))"
  by (subst else_chain.simps) (cases alternate; simp only: node.case has_consequent.simps simp_thms)

section \<open>Runs\<close>

lemma fst_ret: "fst (ret v) = Returns v"
  by (simp add: ret_def)

lemma snd_ret: "snd (ret v) = []"
  by (simp add: ret_def)

lemma fst_after: "fst (after e m) = fst m"
  by (simp add: after_def)

lemma snd_after: "snd (after e m) = e # snd m"
  by (simp add: after_def)

lemma fst_andThen:
  "fst (andThen m f) =
     (case fst m of TypeError \<Rightarrow> TypeError | SyntaxError \<Rightarrow> SyntaxError
      | Returns v \<Rightarrow> fst (f v))"
  by (cases m; cases "fst m") simp_all

lemma snd_andThen:
  "snd (andThen m f) =
     (case fst m of TypeError \<Rightarrow> snd m | SyntaxError \<Rightarrow> snd m
      | Returns v \<Rightarrow> snd m @ snd (f v))"
  by (cases m; cases "fst m") simp_all

lemma fst_require:
  "fst (require m f) =
     (case fst m of TypeError \<Rightarrow> TypeError | SyntaxError \<Rightarrow> SyntaxError
      | Returns None \<Rightarrow> Returns None | Returns (Some v) \<Rightarrow> fst (f v))"
  by (simp add: require_def fst_andThen fst_ret split: completion.splits option.splits)

lemma snd_require:
  "snd (require m f) =
     (case fst m of TypeError \<Rightarrow> snd m | SyntaxError \<Rightarrow> snd m
      | Returns None \<Rightarrow> snd m | Returns (Some v) \<Rightarrow> snd m @ snd (f v))"
  by (simp add: require_def snd_andThen snd_ret split: completion.splits option.splits)

lemma andThen_value:
  "fst m = Returns v \<Longrightarrow> andThen m f = (fst (f v), snd m @ snd (f v))"
  by (cases m) simp

lemma andThen_raise:
  "fst m = TypeError \<Longrightarrow> andThen m f = (TypeError, snd m)"
  "fst m = SyntaxError \<Longrightarrow> andThen m f = (SyntaxError, snd m)"
  by (cases m; simp)+

lemmas fst_run = fst_ret fst_after fst_andThen fst_require

lemmas snd_run = snd_ret snd_after snd_andThen snd_require

lemmas run_defs = ret_def after_def require_def

text \<open>Every event of a conversion lies at or below the position converted.\<close>

lemma within_ret: "within p (ret v)"
  by (simp add: within_def snd_ret)

lemma within_raise: "within p (TypeError, [])" "within p (SyntaxError, [])"
  by (simp_all add: within_def)

lemma within_after: "\<exists>q. position e = p @ q \<Longrightarrow> within p m \<Longrightarrow> within p (after e m)"
  by (simp add: within_def snd_after)

lemma within_andThen:
  "within p m \<Longrightarrow> (\<And>v. within p (f v)) \<Longrightarrow> within p (andThen m f)"
  by (auto simp add: within_def snd_andThen split: completion.splits)

lemma within_require:
  "within p m \<Longrightarrow> (\<And>v. within p (f v)) \<Longrightarrow> within p (require m f)"
  by (auto simp add: within_def snd_require split: completion.splits option.splits)

lemma within_weaken: "within (p @ q) m \<Longrightarrow> within p m"
  by (auto simp add: within_def)

lemmas within_call =
  within_weaken [of p q "convert regexp (p @ q) n"]
  within_weaken [of p q "convert_child regexp (p @ q) c"]
  within_weaken [of p q "convert_array regexp (p @ q) done ns"]
  within_weaken [of p q "program_body regexp (p @ q) kids ns"]
  within_weaken [of p q "else_chain regexp (p @ q) kids n"]
  for regexp p q n c "done" ns kids

lemmas within_intros = within_ret within_raise within_after within_andThen within_require

lemma within_convert:
  "within p (convert regexp p n)"
  "within p (convert_child regexp p c)"
  "within p (convert_array regexp p done ns)"
  "within p (program_body regexp p kids ns)"
  "within p (else_chain regexp p kids n)"
proof (induction regexp p n and regexp p c and regexp p "done" ns and regexp p kids ns
    and regexp p kids n
    rule: convert_convert_child_convert_array_program_body_else_chain.induct)
  case (36 regexp p kids alternate)
  then show ?case
    by (cases alternate)
      (auto intro!: within_intros within_call split: option.splits simp del: convert.simps)
qed ((subst convert.simps convert_child.simps convert_array.simps program_body.simps),
     (auto intro!: within_intros within_call split: option.splits list.splits
        simp del: convert.simps convert_child.simps convert_array.simps program_body.simps)[1])+

section \<open>The loop of the array branch\<close>




lemma convert_array_all:
  "length vs = length ns \<Longrightarrow>
   (\<forall>j<length ns. fst (convert regexp (p @ [Index (length done + j)]) (ns ! j)) = Returns (Some (vs ! j))) \<Longrightarrow>
   fst (convert_array regexp p done ns) = Returns (Some (done @ vs))"
proof (induction ns arbitrary: "done" vs)
  case Nil
  then show ?case by (simp add: fst_ret)
next
  case (Cons n ns)
  from Cons.prems(1) obtain v vs' where vs: "vs = v # vs'" and len: "length vs' = length ns"
    by (cases vs) auto
  from Cons.prems(2) [rule_format, of 0]
  have head: "fst (convert regexp (p @ [Index (length done)]) n) = Returns (Some v)"
    by (simp add: vs)
  have rest: "\<forall>j<length ns.
      fst (convert regexp (p @ [Index (length (done @ [v]) + j)]) (ns ! j)) = Returns (Some (vs' ! j))"
  proof (intro allI impI)
    fix j assume "j < length ns"
    with Cons.prems(2) [rule_format, of "Suc j"] show
      "fst (convert regexp (p @ [Index (length (done @ [v]) + j)]) (ns ! j)) = Returns (Some (vs' ! j))"
      by (simp add: vs)
  qed
  from Cons.IH [OF len rest] head show ?case
    by (simp add: vs fst_andThen fst_after)
qed

lemma convert_array_reject:
  "i < length ns \<Longrightarrow>
   (\<forall>j<i. \<exists>v. fst (convert regexp (p @ [Index (length done + j)]) (ns ! j)) = Returns (Some v)) \<Longrightarrow>
   fst (convert regexp (p @ [Index (length done + i)]) (ns ! i)) = Returns None \<Longrightarrow>
   fst (convert_array regexp p done ns) = Returns None \<and>
   convert_array regexp p done ns = convert_array regexp p done (take (Suc i) ns)"
proof (induction ns arbitrary: "done" i)
  case Nil
  then show ?case by simp
next
  case (Cons n ns)
  show ?case
  proof (cases i)
    case 0
    with Cons.prems(3) have head: "fst (convert regexp (p @ [Index (length done)]) n) = Returns None"
      by simp
    then show ?thesis
      by (simp add: 0 andThen_value fst_ret)
  next
    case (Suc i')
    from Cons.prems(2) [rule_format, of 0] obtain v
      where head: "fst (convert regexp (p @ [Index (length done)]) n) = Returns (Some v)"
      by (auto simp add: Suc)
    have less: "i' < length ns"
      using Cons.prems(1) by (simp add: Suc)
    have before: "\<forall>j<i'. \<exists>w.
        fst (convert regexp (p @ [Index (length (done @ [v]) + j)]) (ns ! j)) = Returns (Some w)"
    proof (intro allI impI)
      fix j assume "j < i'"
      with Cons.prems(2) [rule_format, of "Suc j"] show
        "\<exists>w. fst (convert regexp (p @ [Index (length (done @ [v]) + j)]) (ns ! j)) = Returns (Some w)"
        by (simp add: Suc)
    qed
    have at: "fst (convert regexp (p @ [Index (length (done @ [v]) + i')]) (ns ! i')) = Returns None"
      using Cons.prems(3) by (simp add: Suc)
    note both = Cons.IH [OF less before at]
    have none: "fst (convert_array regexp p (done @ [v]) ns) = Returns None"
      by (rule both [THEN conjunct1])
    have same: "convert_array regexp p (done @ [v]) (take (Suc i') ns) = convert_array regexp p (done @ [v]) ns"
      by (rule both [THEN conjunct2, symmetric])
    show ?thesis
      by (simp add: Suc andThen_value [OF head] fst_after none same)
  qed
qed

lemma convert_array_visits:
  "Visit (p @ Index k # q) \<in> set (snd (convert_array regexp p done ns)) \<Longrightarrow>
   length done \<le> k \<and> k < length done + length ns"
proof (induction ns arbitrary: "done")
  case Nil
  then show ?case by (simp add: snd_ret)
next
  case (Cons n ns)
  let ?head = "convert regexp (p @ [Index (length done)]) n"
  have "within (p @ [Index (length done)]) ?head"
    by (rule within_convert)
  then have here: "k = length done" if "Visit (p @ Index k # q) \<in> set (snd ?head)"
    using that by (auto simp add: within_def)
  from Cons.prems consider
      "Visit (p @ Index k # q) \<in> set (snd ?head)"
    | v where "Visit (p @ Index k # q) \<in> set (snd (convert_array regexp p (done @ [v]) ns))"
    by (auto simp add: snd_andThen snd_ret snd_after split: completion.splits option.splits)
  then show ?case
  proof cases
    case 1
    then show ?thesis using here by simp
  next
    case 2
    from Cons.IH [OF 2] show ?thesis by simp
  qed
qed


lemma visit_first: "Visit p \<in> set (snd (convert regexp p n))"
  by (cases n) (simp_all add: snd_after)

lemma convert_array_visited:
  "i < length ns \<Longrightarrow>
   (\<forall>j<i. \<exists>v. fst (convert regexp (p @ [Index (length done + j)]) (ns ! j)) = Returns (Some v)) \<Longrightarrow>
   j \<le> i \<Longrightarrow>
   Visit (p @ [Index (length done + j)]) \<in> set (snd (convert_array regexp p done ns))"
proof (induction ns arbitrary: "done" i j)
  case Nil
  then show ?case by simp
next
  case (Cons n ns)
  let ?head = "convert regexp (p @ [Index (length done)]) n"
  show ?case
  proof (cases j)
    case 0
    have "Visit (p @ [Index (length done)]) \<in> set (snd ?head)"
      by (rule visit_first)
    then show ?thesis
      by (simp add: 0 snd_andThen split: completion.splits)
  next
    case (Suc j')
    with Cons.prems(3) obtain i' where i: "i = Suc i'" and le: "j' \<le> i'"
      by (cases i) auto
    from Cons.prems(2) [rule_format, of 0] obtain v where head: "fst ?head = Returns (Some v)"
      by (auto simp add: i)
    have less: "i' < length ns"
      using Cons.prems(1) by (simp add: i)
    have before: "\<forall>j<i'. \<exists>w.
        fst (convert regexp (p @ [Index (length (done @ [v]) + j)]) (ns ! j)) = Returns (Some w)"
    proof (intro allI impI)
      fix j assume "j < i'"
      with Cons.prems(2) [rule_format, of "Suc j"] show
        "\<exists>w. fst (convert regexp (p @ [Index (length (done @ [v]) + j)]) (ns ! j)) = Returns (Some w)"
        by (simp add: i)
    qed
    from Cons.IH [OF less before le]
    have "Visit (p @ [Index (Suc (length done + j'))]) \<in> set (snd (convert_array regexp p (done @ [v]) ns))"
      by simp
    then show ?thesis
      by (simp add: Suc andThen_value [OF head] snd_after)
  qed
qed

text \<open>
  C1. The array branch converts the elements from left to right and stops at the first element
  whose conversion returns the rejection sentinel. When every element converts to an IR value,
  the result is the list of these values in the order of the elements. When element \<open>i\<close>
  rejects and the elements before it have converted, the result is the sentinel; the run is the
  run on the elements up to \<open>i\<close> alone; \<^verbatim>\<open>convert\<close> is called on every element up to \<open>i\<close>, and
  on no element after \<open>i\<close> nor on any part of one.
\<close>

theorem array_conversion_short_circuits:
  "(length vs = length nodes \<and>
    (\<forall>j<length nodes. fst (convert regexp (p @ [Index j]) (nodes ! j)) = Returns (Some (vs ! j))) \<longrightarrow>
      fst (convert_array regexp p [] nodes) = Returns (Some vs)) \<and>
   (i < length nodes \<and>
    (\<forall>j<i. \<exists>v. fst (convert regexp (p @ [Index j]) (nodes ! j)) = Returns (Some v)) \<and>
    fst (convert regexp (p @ [Index i]) (nodes ! i)) = Returns None \<longrightarrow>
      fst (convert_array regexp p [] nodes) = Returns None \<and>
      convert_array regexp p [] nodes = convert_array regexp p [] (take (Suc i) nodes) \<and>
      (\<forall>j\<le>i. Visit (p @ [Index j]) \<in> set (snd (convert_array regexp p [] nodes))) \<and>
      (\<forall>k q. i < k \<longrightarrow> Visit (p @ Index k # q) \<notin> set (snd (convert_array regexp p [] nodes))))"
proof (intro conjI impI; (elim conjE)?)
  assume "length vs = length nodes"
    and "\<forall>j<length nodes. fst (convert regexp (p @ [Index j]) (nodes ! j)) = Returns (Some (vs ! j))"
  then show "fst (convert_array regexp p [] nodes) = Returns (Some vs)"
    using convert_array_all [of vs nodes regexp p "[]"] by simp
next
  assume i: "i < length nodes"
    and before: "\<forall>j<i. \<exists>v. fst (convert regexp (p @ [Index j]) (nodes ! j)) = Returns (Some v)"
    and at: "fst (convert regexp (p @ [Index i]) (nodes ! i)) = Returns None"
  note stop = convert_array_reject [of i nodes regexp p "[]", simplified, OF i before at]
  show "fst (convert_array regexp p [] nodes) = Returns None"
    by (rule stop [THEN conjunct1])
  show same: "convert_array regexp p [] nodes = convert_array regexp p [] (take (Suc i) nodes)"
    by (rule stop [THEN conjunct2])
  show "\<forall>j\<le>i. Visit (p @ [Index j]) \<in> set (snd (convert_array regexp p [] nodes))"
    using convert_array_visited [of i nodes regexp p "[]", simplified, OF i before] by blast
  show "\<forall>k q. i < k \<longrightarrow> Visit (p @ Index k # q) \<notin> set (snd (convert_array regexp p [] nodes))"
  proof (intro allI impI notI)
    fix k q
    assume "i < k" and "Visit (p @ Index k # q) \<in> set (snd (convert_array regexp p [] nodes))"
    then have "Visit (p @ Index k # q) \<in> set (snd (convert_array regexp p [] (take (Suc i) nodes)))"
      using same by simp
    from convert_array_visits [OF this] i \<open>i < k\<close> show False
      by simp
  qed
qed

theorem array_conversion_short_circuits_witness:
  "fst (convert_array es2018 [] [] [Identifier ''a'', Literal (LNumber 1) None]) =
     Returns (Some [b_identifier ''a'', b_literal (LNumber 1)]) \<and>
   fst (convert_array es2018 [] []
     [Identifier ''a'', Other ''SpreadElement'', ForStatement None None None (BlockStatement [])]) =
     Returns None \<and>
   Visit [Index 1] \<in> set (snd (convert_array es2018 [] []
     [Identifier ''a'', Other ''SpreadElement'', ForStatement None None None (BlockStatement [])])) \<and>
   Visit [Index 2] \<notin> set (snd (convert_array es2018 [] []
     [Identifier ''a'', Other ''SpreadElement'', ForStatement None None None (BlockStatement [])]))"
  using array_conversion_short_circuits
      [of "[b_identifier ''a'', b_literal (LNumber 1)]" "[Identifier ''a'', Literal (LNumber 1) None]"
          es2018 "[]" 0]
    array_conversion_short_circuits
      [of "[]" "[Identifier ''a'', Other ''SpreadElement'',
                 ForStatement None None None (BlockStatement [])]" es2018 "[]" 1]
  by (simp add: fst_run snd_run)

section \<open>Every store overwrites an element of an input array with its conversion\<close>










lemma part_at_element:
  "length pre = k \<Longrightarrow> part_at (Array (pre @ n # ns)) (Index k # q) = part_at (Node n) q"
  by (simp add: nth_append)


section \<open>Stores into the input\<close>




section \<open>Programs\<close>

lemma program_body_all:
  "length vs = length ns \<Longrightarrow>
   (\<forall>j<length ns. fst (convert regexp (p @ [Index (length kids + j)]) (ns ! j)) = Returns (Some (vs ! j))) \<Longrightarrow>
   fst (program_body regexp p kids ns) = Returns (Some (b_containerNode (kids @ vs)))"
proof (induction ns arbitrary: kids vs)
  case Nil
  then show ?case by (simp add: fst_ret)
next
  case (Cons n ns)
  from Cons.prems(1) obtain v vs' where vs: "vs = v # vs'" and len: "length vs' = length ns"
    by (cases vs) auto
  from Cons.prems(2) [rule_format, of 0]
  have head: "fst (convert regexp (p @ [Index (length kids)]) n) = Returns (Some v)"
    by (simp add: vs)
  have rest: "\<forall>j<length ns.
      fst (convert regexp (p @ [Index (length (kids @ [v]) + j)]) (ns ! j)) = Returns (Some (vs' ! j))"
  proof (intro allI impI)
    fix j assume "j < length ns"
    with Cons.prems(2) [rule_format, of "Suc j"] show
      "fst (convert regexp (p @ [Index (length (kids @ [v]) + j)]) (ns ! j)) = Returns (Some (vs' ! j))"
      by (simp add: vs)
  qed
  from Cons.IH [OF len rest] head show ?case
    by (simp add: vs fst_andThen)
qed

lemma program_body_reject:
  "i < length ns \<Longrightarrow>
   (\<forall>j<i. \<exists>v. fst (convert regexp (p @ [Index (length kids + j)]) (ns ! j)) = Returns (Some v)) \<Longrightarrow>
   fst (convert regexp (p @ [Index (length kids + i)]) (ns ! i)) = Returns None \<Longrightarrow>
   fst (program_body regexp p kids ns) = Returns None"
proof (induction ns arbitrary: kids i)
  case Nil
  then show ?case by simp
next
  case (Cons n ns)
  show ?case
  proof (cases i)
    case 0
    with Cons.prems(3) have "fst (convert regexp (p @ [Index (length kids)]) n) = Returns None"
      by simp
    then show ?thesis
      by (simp add: fst_andThen fst_ret)
  next
    case (Suc i')
    from Cons.prems(2) [rule_format, of 0] obtain v
      where head: "fst (convert regexp (p @ [Index (length kids)]) n) = Returns (Some v)"
      by (auto simp add: Suc)
    have less: "i' < length ns"
      using Cons.prems(1) by (simp add: Suc)
    have before: "\<forall>j<i'. \<exists>w.
        fst (convert regexp (p @ [Index (length (kids @ [v]) + j)]) (ns ! j)) = Returns (Some w)"
    proof (intro allI impI)
      fix j assume "j < i'"
      with Cons.prems(2) [rule_format, of "Suc j"] show
        "\<exists>w. fst (convert regexp (p @ [Index (length (kids @ [v]) + j)]) (ns ! j)) = Returns (Some w)"
        by (simp add: Suc)
    qed
    have at: "fst (convert regexp (p @ [Index (length (kids @ [v]) + i')]) (ns ! i')) = Returns None"
      using Cons.prems(3) by (simp add: Suc)
    from Cons.IH [OF less before at] head show ?thesis
      by (simp add: fst_andThen)
  qed
qed

lemma program_not_single:
  "length body \<noteq> 1 \<Longrightarrow>
   convert regexp p (Program body) = after (Visit p) (program_body regexp (p @ [Child ''body'']) [] body)"
  by (auto split: list.splits simp del: program_body.simps)

text \<open>
  C4. The conversion of a program with exactly one statement is the conversion of that
  statement, with no container. Of any other program whose statements all convert, it is the
  container of the converted statements in order. When a statement rejects and the statements
  before it have converted, the conversion of the program is the rejection sentinel: no partial
  container is returned.
\<close>

theorem program_conversion:
  "fst (convert regexp p (Program [statement])) =
     fst (convert regexp (p @ [Child ''body'', Index 0]) statement) \<and>
   (length body \<noteq> 1 \<and> length vs = length body \<and>
    (\<forall>j<length body.
       fst (convert regexp (p @ [Child ''body'', Index j]) (body ! j)) = Returns (Some (vs ! j))) \<longrightarrow>
      fst (convert regexp p (Program body)) = Returns (Some (b_containerNode vs))) \<and>
   (i < length body \<and>
    (\<forall>j<i. \<exists>v. fst (convert regexp (p @ [Child ''body'', Index j]) (body ! j)) = Returns (Some v)) \<and>
    fst (convert regexp (p @ [Child ''body'', Index i]) (body ! i)) = Returns None \<longrightarrow>
      fst (convert regexp p (Program body)) = Returns None)"
proof (intro conjI impI; (elim conjE)?)
  show "fst (convert regexp p (Program [statement])) =
      fst (convert regexp (p @ [Child ''body'', Index 0]) statement)"
    by (simp add: fst_after)
next
  assume "length body \<noteq> 1" and "length vs = length body"
    and "\<forall>j<length body.
      fst (convert regexp (p @ [Child ''body'', Index j]) (body ! j)) = Returns (Some (vs ! j))"
  then show "fst (convert regexp p (Program body)) = Returns (Some (b_containerNode vs))"
    using program_body_all [of vs body regexp "p @ [Child ''body'']" "[]"]
    by (simp add: program_not_single fst_after del: convert.simps)
next
  assume i: "i < length body"
    and before: "\<forall>j<i. \<exists>v.
      fst (convert regexp (p @ [Child ''body'', Index j]) (body ! j)) = Returns (Some v)"
    and at: "fst (convert regexp (p @ [Child ''body'', Index i]) (body ! i)) = Returns None"
  show "fst (convert regexp p (Program body)) = Returns None"
  proof (cases "length body = 1")
    case True
    then obtain statement where "body = [statement]"
      by (cases body) auto
    with i at show ?thesis
      by (simp add: fst_after)
  next
    case False
    with program_body_reject [of i body regexp "p @ [Child ''body'']" "[]"] i before at show ?thesis
      by (simp add: program_not_single fst_after del: convert.simps)
  qed
qed

theorem program_conversion_witness:
  "fst (convert es2018 [] (Program [ReturnStatement None])) = Returns (Some (b_returnStatement None)) \<and>
   fst (convert es2018 [] (Program [ReturnStatement None, ExpressionStatement ThisExpression])) =
     Returns (Some (b_containerNode [b_returnStatement None, b_thisExpression])) \<and>
   fst (convert es2018 [] (Program [ReturnStatement None, Other ''ClassDeclaration'',
     ExpressionStatement ThisExpression])) = Returns None"
  using program_conversion
      [of es2018 "[]" "ReturnStatement None" "[ReturnStatement None, ExpressionStatement ThisExpression]"
          "[b_returnStatement None, b_thisExpression]" 0]
    program_conversion
      [of es2018 "[]" "ReturnStatement None"
          "[ReturnStatement None, Other ''ClassDeclaration'', ExpressionStatement ThisExpression]"
          "[]" 1]
  by (simp add: fst_run)

section \<open>The program with no statement\<close>

text \<open>
  C10. For a program node whose body is empty, \<^verbatim>\<open>convert\<close> returns a container with no child:
  it does not reject, and the only event of the run is the call on the program itself.
\<close>

theorem program_empty_container:
  "convert regexp p (Program []) = (Returns (Some (b_containerNode [])), [Visit p])"
  by (simp add: run_defs)

section \<open>For statements with an absent child\<close>

lemma convert_child_absent: "fst (convert_child regexp p None) = TypeError"
  by (simp add: fst_after)




section \<open>Tagged templates\<close>

lemma template_literal_result:
  "fst (convert regexp q (TemplateLiteral quasis expressions)) = Returns (Some x) \<Longrightarrow>
   \<exists>es. x = b_templateLiteral quasis es False"
  by (auto simp add: fst_run split: completion.splits option.splits)

text \<open>
  C7. A tagged template converts to an IR node exactly when the name of its tag is the string
  \<^verbatim>\<open>$nonstandard\<close> and the inner template converts to an IR node; the result is then the
  template IR node of the inner template with its nonstandard flag set to true. With any other
  tag, or when the inner template rejects, the result is the rejection sentinel.
\<close>

theorem tagged_template_nonstandard_only:
  "(fst (convert regexp p (TaggedTemplateExpression tag quasis expressions)) = Returns (Some v) \<longleftrightarrow>
      name_field tag = Some ''$nonstandard'' \<and>
      (\<exists>es. fst (convert regexp (p @ [Child ''quasi'']) (TemplateLiteral quasis expressions)) =
              Returns (Some (b_templateLiteral quasis es False)) \<and>
            v = b_templateLiteral quasis es True)) \<and>
   (name_field tag \<noteq> Some ''$nonstandard'' \<or>
    fst (convert regexp (p @ [Child ''quasi'']) (TemplateLiteral quasis expressions)) = Returns None \<longrightarrow>
      fst (convert regexp p (TaggedTemplateExpression tag quasis expressions)) = Returns None)"
proof -
  let ?inner = "fst (convert regexp (p @ [Child ''quasi'']) (TemplateLiteral quasis expressions))"
  let ?outer = "fst (convert regexp p (TaggedTemplateExpression tag quasis expressions))"
  have outer: "?outer =
      (if name_field tag = Some ''$nonstandard''
       then (case ?inner of TypeError \<Rightarrow> TypeError | SyntaxError \<Rightarrow> SyntaxError
             | Returns None \<Rightarrow> Returns None
             | Returns (Some q) \<Rightarrow> Returns (Some (set_nonstandard q)))
       else Returns None)"
    by (simp add: fst_run del: convert.simps(13) split: completion.splits option.splits)
  have shape: "\<exists>es. x = b_templateLiteral quasis es False" if "?inner = Returns (Some x)" for x
    using that by (rule template_literal_result)
  show ?thesis
    unfolding outer
    by (auto simp del: convert.simps(13) split: completion.splits option.splits dest: shape)
qed

theorem tagged_template_nonstandard_only_witness:
  "fst (convert es2018 [] (TaggedTemplateExpression (Identifier ''$nonstandard'') [''x''] [])) =
     Returns (Some (b_templateLiteral [''x''] [] True)) \<and>
   fst (convert es2018 [] (TaggedTemplateExpression (Identifier ''html'') [''x''] [])) = Returns None"
  using tagged_template_nonstandard_only
      [of es2018 "[]" "Identifier ''$nonstandard''" "[''x'']" "[]" "b_templateLiteral [''x''] [] True"]
    tagged_template_nonstandard_only
      [of es2018 "[]" "Identifier ''html''" "[''x'']" "[]" "b_templateLiteral [''x''] [] True"]
  by (simp add: fst_run)

section \<open>Property keys\<close>

text \<open>
  C5. A non-computed property whose key converts to an identifier-shaped IR node gets the
  literal IR node carrying the identifier's name as a string for its key; so the properties
  \<^verbatim>\<open>{a: 1}\<close> and \<^verbatim>\<open>{"a": 1}\<close>, and any two properties that differ only in this way, have the
  same conversion.
\<close>

theorem property_identifier_key_literal:
  "(kind \<noteq> ''get'' \<and> kind \<noteq> ''set'' \<and>
    fst (convert regexp (p @ [Child ''key'']) key) = Returns (Some (b_identifier name)) \<and>
    fst (convert regexp (p @ [Child ''value'']) val) = Returns (Some v) \<longrightarrow>
      fst (convert regexp p (Property kind False key val)) =
        Returns (Some (b_property (b_literal (LString name)) v False))) \<and>
   convert regexp p (Property kind False (Identifier name) val) =
     convert regexp p (Property kind False (Literal (LString name) None) val)"
  by (simp add: fst_run) (simp add: run_defs)

theorem property_identifier_key_literal_witness:
  "fst (convert es2018 [] (Property ''init'' False (Identifier ''a'') (Literal (LNumber 1) None))) =
     Returns (Some (b_property (b_literal (LString ''a'')) (b_literal (LNumber 1)) False)) \<and>
   fst (convert es2018 [] (Property ''init'' False (Literal (LString ''a'') None) (Literal (LNumber 1) None))) =
     Returns (Some (b_property (b_literal (LString ''a'')) (b_literal (LNumber 1)) False))"
  using property_identifier_key_literal
      [of "''init''" es2018 "[]" "Identifier ''a''" "''a''" "Literal (LNumber 1) None" "b_literal (LNumber 1)"]
  by (simp add: fst_run)

section \<open>Rejections followed by a runtime error\<close>

text \<open>What the three cases do when no conversion raises.\<close>

lemma accessor_property_rejects:
  "kind = ''get'' \<or> kind = ''set'' \<Longrightarrow>
   fst (convert regexp (p @ [Child ''key'']) key) = Returns r \<Longrightarrow>
   fst (convert regexp p (Property kind computed key val)) = Returns None"
  by (auto simp add: fst_run split: completion.splits option.splits)

lemma if_statement_alone:
  "fst (convert regexp (p @ [Child ''test'']) test) = Returns (Some t) \<Longrightarrow>
   fst (convert regexp (p @ [Child ''consequent'']) consequent) = Returns (Some b) \<Longrightarrow>
   fst (convert regexp p (IfStatement test consequent None)) = Returns (Some (b_ifStatement t b))"
  by (simp add: fst_run)

lemma if_statement_rejects:
  "fst (convert regexp (p @ [Child ''test'']) test) = Returns t \<Longrightarrow>
   fst (convert regexp (p @ [Child ''consequent'']) consequent) = Returns b \<Longrightarrow>
   t = None \<or> b = None \<Longrightarrow>
   fst (convert regexp p (IfStatement test consequent alternate)) = Returns None"
  by (auto simp add: fst_run split: option.splits)

lemma if_else_if_else:
  "fst (convert regexp []
     (IfStatement (Identifier ''a'') (BlockStatement [ExpressionStatement (Identifier ''x'')])
        (Some (IfStatement (Identifier ''b'')
           (BlockStatement [ExpressionStatement (Identifier ''y'')])
           (Some (BlockStatement [ExpressionStatement (Identifier ''z'')])))))) =
   Returns (Some (b_containerNode
     [b_ifStatement (b_identifier ''a'') (Seq [b_identifier ''x'']),
      b_elseIfStatement (b_identifier ''b'') (Seq [b_identifier ''y'']),
      b_elseStatement (Seq [b_identifier ''z''])]))"
  by (simp add: fst_run)

lemma unsupported_kind_rejects:
  "type_of n \<notin> set supported_kinds \<Longrightarrow> convert regexp p n = (Returns None, [Visit p])"
  by (cases n) (simp_all add: supported_kinds_def run_defs)

text \<open>
  C6. An accessor property is rejected whatever its key and value. At the getter
  \<^verbatim>\<open>{ get [function () { for (;;) {} }]() {} }\<close> the code does not return the rejection
  sentinel: the key is converted before the kind is looked at, and converting the key raises.
\<close>

theorem accessor_property_key_raises:
  "fst (convert regexp []
     (Property ''get'' True
        (FunctionExpression None []
           (BlockStatement [ForStatement None None None (BlockStatement [])]))
        (FunctionExpression None [] (BlockStatement [])))) = TypeError"
  by (simp add: fst_run)

text \<open>
  C3. An if statement rejects when the conversion of its test fails. At
  \<^verbatim>\<open>if (() => 1) for (;;) {}\<close> the conversion of the test returns the rejection sentinel; the
  consequent is converted all the same, before the results are looked at, and the statement
  raises instead of rejecting.
\<close>

theorem if_rejected_test_raises:
  "fst (convert regexp [Child ''test''] (Other ''ArrowFunctionExpression'')) = Returns None \<and>
   fst (convert regexp []
     (IfStatement (Other ''ArrowFunctionExpression'')
        (ForStatement None None None (BlockStatement [])) None)) = TypeError"
  by (simp add: fst_run)

text \<open>
  C8. The rejection sentinel of a node of unsupported kind reaches the caller through every
  enclosing conversion. At \<^verbatim>\<open>while (class {}) for (;;) {}\<close> the test is of unsupported kind
  and its conversion returns the sentinel, but the enclosing conversion raises a type error.
\<close>

theorem rejection_not_propagated:
  "fst (convert regexp [Child ''test''] (Other ''ClassExpression'')) = Returns None \<and>
   fst (convert regexp []
     (WhileStatement (Other ''ClassExpression'')
        (ForStatement None None None (BlockStatement [])))) = TypeError"
  by (simp add: fst_run)

end
